theory Spec2Isabelle
  imports Complex_Main "HOL-Library.Sublist" "HOL-Library.Log_Nat"
begin

section \<open>Pennywise: expense ledger, fair shares, settlement and categorisation\<close>

text \<open>
  A shallow embedding of \<^verbatim>\<open>src/core/calculations.py\<close> and
  \<^verbatim>\<open>src/categorization/transaction_categories.py\<close>.

  Conventions of the embedding.
  \<^item> A Python \<^verbatim>\<open>str\<close> is a \<^typ>\<open>string\<close> holding the UTF-8 bytes of the text, so that
    the literals of the source can be written down byte for byte.
  \<^item> The ledger is written for any type of amounts with a zero and an addition, as the
    source adds whatever numbers it is given. Two types are used: \<open>float64\<close>, Python's
    \<^verbatim>\<open>float\<close> with the rounding of its addition, and the exact \<^typ>\<open>real\<close>, which the
    fair shares and the report are computed in (their arithmetic is kept operation by
    operation, its rounding, infinities and NaN are not modelled).
  \<^item> A \<^verbatim>\<open>Dict[str, float]\<close> is an association list in insertion order with at most one
    entry per key, which is the order \<^verbatim>\<open>dict.values()\<close> and \<^verbatim>\<open>dict.items()\<close> iterate in.
  \<^item> A method that mutates \<^verbatim>\<open>self\<close> takes the ledger and returns the ledger after the
    call together with its outcome; \<^verbatim>\<open>raise ValueError(...)\<close> is the outcome \<open>Inl\<close>.
  \<^item> A pandas \<^verbatim>\<open>DataFrame\<close> is an object of a heap, since \<^verbatim>\<open>df.copy()\<close> makes a new
    object and the later assignments write to that one.
\<close>

subsection \<open>Dictionaries\<close>

type_synonym 'v dict = "(string \<times> 'v) list"

text \<open>\<^verbatim>\<open>d.get(k, default)\<close>\<close>

fun dict_get :: "'v dict \<Rightarrow> string \<Rightarrow> 'v \<Rightarrow> 'v" where
  "dict_get [] k dflt = dflt"
| "dict_get ((k', v) # d) k dflt = (if k' = k then v else dict_get d k dflt)"

text \<open>\<^verbatim>\<open>d[k] = v\<close>: an existing key keeps its position, a new key goes last.\<close>

fun dict_set :: "'v dict \<Rightarrow> string \<Rightarrow> 'v \<Rightarrow> 'v dict" where
  "dict_set [] k v = [(k, v)]"
| "dict_set ((k', v') # d) k v = (if k' = k then (k', v) # d else (k', v') # dict_set d k v)"

definition dict_keys :: "'v dict \<Rightarrow> string list" where
  "dict_keys d = map fst d"

definition dict_values :: "'v dict \<Rightarrow> 'v list" where
  "dict_values d = map snd d"

text \<open>\<^verbatim>\<open>k in d\<close>\<close>

definition dict_has :: "'v dict \<Rightarrow> string \<Rightarrow> bool" where
  "dict_has d k = (k \<in> set (dict_keys d))"

text \<open>The builtin \<^verbatim>\<open>sum(xs)\<close>: starts from 0 and adds from the left.\<close>

definition py_sum :: "'a::{zero,plus} list \<Rightarrow> 'a" where
  "py_sum xs = foldl (+) 0 xs"

subsection \<open>Person and Contribution\<close>

record 'a person =
  name :: string
  monthly_income :: 'a
  personal_expenses :: "'a dict"
  shared_expenses_paid :: "'a dict"

text \<open>
  \<^verbatim>\<open>Person(name, monthly_income=...)\<close>: both dictionaries come from
  \<^verbatim>\<open>field(default_factory=dict)\<close>, a new empty dictionary per instance.
\<close>

definition Person :: "string \<Rightarrow> 'a \<Rightarrow> 'a person" where
  "Person n income =
     \<lparr>name = n, monthly_income = income, personal_expenses = [], shared_expenses_paid = []\<rparr>"

text \<open>
  The ledger holds its two persons by value: the two \<^verbatim>\<open>Person\<close> objects of a
  \<^verbatim>\<open>Contribution\<close> are two objects, each owning its dictionaries. The field
  \<open>date\<close> is the creation time (\<^verbatim>\<open>datetime.now\<close>), passed in as a number.
\<close>

record 'a contribution =
  person_a :: "'a person"
  person_b :: "'a person"
  shared_expenses :: "'a dict"
  date :: int

definition Contribution :: "'a person \<Rightarrow> 'a person \<Rightarrow> int \<Rightarrow> 'a contribution" where
  "Contribution a b now = \<lparr>person_a = a, person_b = b, shared_expenses = [], date = now\<rparr>"

datatype error = ValueError string | KeyError string

text \<open>The local variable \<^verbatim>\<open>person\<close> of \<^verbatim>\<open>add_expense\<close> refers to one of the two persons.\<close>

datatype person_ref = PersonA | PersonB

definition get_person :: "person_ref \<Rightarrow> 'a contribution \<Rightarrow> 'a person" where
  "get_person r self = (case r of PersonA \<Rightarrow> person_a self | PersonB \<Rightarrow> person_b self)"

definition put_person :: "person_ref \<Rightarrow> 'a person \<Rightarrow> 'a contribution \<Rightarrow> 'a contribution" where
  "put_person r p self =
     (case r of PersonA \<Rightarrow> self\<lparr>person_a := p\<rparr> | PersonB \<Rightarrow> self\<lparr>person_b := p\<rparr>)"

definition add_expense ::
  "string \<Rightarrow> 'a::{zero,plus} \<Rightarrow> string \<Rightarrow> bool \<Rightarrow> 'a contribution
     \<Rightarrow> (error + unit) \<times> 'a contribution" where
  "add_expense category amount paid_by is_shared self =
     (case (if paid_by = name (person_a self) then Inr PersonA
            else if paid_by = name (person_b self) then Inr PersonB
            else Inl (ValueError (''Unknown person: '' @ paid_by))) of
        Inl e \<Rightarrow> (Inl e, self)
      | Inr r \<Rightarrow>
          (let p = get_person r self in
           if is_shared then
             (let p1 = p\<lparr>shared_expenses_paid :=
                          dict_set (shared_expenses_paid p) category
                            (dict_get (shared_expenses_paid p) category 0 + amount)\<rparr>;
                  self1 = put_person r p1 self;
                  self2 = self1\<lparr>shared_expenses :=
                            dict_set (shared_expenses self1) category
                              (dict_get (shared_expenses self1) category 0 + amount)\<rparr>
              in (Inr (), self2))
           else
             (let p1 = p\<lparr>personal_expenses :=
                          dict_set (personal_expenses p) category
                            (dict_get (personal_expenses p) category 0 + amount)\<rparr>
              in (Inr (), put_person r p1 self))))"

definition get_total_shared_expenses :: "'a::{zero,plus} contribution \<Rightarrow> 'a" where
  "get_total_shared_expenses self = py_sum (dict_values (shared_expenses self))"

text \<open>\<^verbatim>\<open>get_person_shared_paid\<close> has no assignment in its body: it reads the ledger only.\<close>

definition get_person_shared_paid :: "string \<Rightarrow> 'a::{zero,plus} contribution \<Rightarrow> error + 'a" where
  "get_person_shared_paid n self =
     (if n = name (person_a self) then
        Inr (py_sum (dict_values (shared_expenses_paid (person_a self))))
      else if n = name (person_b self) then
        Inr (py_sum (dict_values (shared_expenses_paid (person_b self))))
      else Inl (ValueError (''Unknown person: '' @ n)))"

subsection \<open>FairShareCalculator\<close>

definition calculate_income_ratio :: "real person \<Rightarrow> real person \<Rightarrow> real \<times> real" where
  "calculate_income_ratio a b =
     (let total_income = monthly_income a + monthly_income b in
      if total_income = 0 then (0.5, 0.5)
      else (let ratio_a = monthly_income a / total_income in (ratio_a, 1 - ratio_a)))"

definition calculate_fair_shares :: "real contribution \<Rightarrow> real \<times> real" where
  "calculate_fair_shares c =
     (let (ratio_a, ratio_b) = calculate_income_ratio (person_a c) (person_b c);
          total_shared = get_total_shared_expenses c
      in (total_shared * ratio_a, total_shared * ratio_b))"

subsection \<open>BalanceSheet\<close>

text \<open>
  \<^verbatim>\<open>f"{amount:.2f}"\<close>: the value rounded to two decimals, ties to the even digit, then
  written with at least one digit before the point.
\<close>

fun digits :: "nat \<Rightarrow> string" where
  "digits n =
     (if n < 10 then [char_of (48 + n)] else digits (n div 10) @ [char_of (48 + n mod 10)])"

definition round_half_even :: "real \<Rightarrow> int" where
  "round_half_even x =
     (let f = \<lfloor>x\<rfloor>; r = x - of_int f in
      if r < 1/2 then f else if 1/2 < r then f + 1 else if even f then f else f + 1)"

definition format_2f :: "real \<Rightarrow> string" where
  "format_2f x =
     (let n = nat (round_half_even (\<bar>x\<bar> * 100)) in
      (if x < 0 then ''-'' else '''') @ digits (n div 100) @ ''.''
        @ digits (n mod 100 div 10) @ digits (n mod 10))"

text \<open>
  The currency mark of the summary, as the bytes of the source file give it: the literal
  between \<^verbatim>\<open>{creditor}\<close> and \<^verbatim>\<open>{amount:.2f}\<close> is the seven bytes
  \<^verbatim>\<open>C3 A2 E2 80 9A C2 AC\<close> (the code points U+00E2, U+201A, U+00AC).
\<close>

definition currency_mark :: string where
  "currency_mark = [CHR 0xC3, CHR 0xA2, CHR 0xE2, CHR 0x80, CHR 0x9A, CHR 0xC2, CHR 0xAC]"

text \<open>The euro sign U+20AC in UTF-8, for comparison.\<close>

definition euro_sign :: string where
  "euro_sign = [CHR 0xE2, CHR 0x82, CHR 0xAC]"

text \<open>The static method \<^verbatim>\<open>_generate_summary\<close>.\<close>

definition generate_summary :: "string \<Rightarrow> string \<Rightarrow> real \<Rightarrow> string" where
  "generate_summary person_a_name person_b_name balance_a =
     (if \<bar>balance_a\<bar> < 0.01 then ''All expenses are perfectly balanced''
      else
        (let debtor = (if balance_a > 0 then person_a_name else person_b_name);
             creditor = (if balance_a > 0 then person_b_name else person_a_name);
             amount = \<bar>balance_a\<bar>
         in debtor @ '' owes '' @ creditor @ '' '' @ currency_mark @ format_2f amount))"

record person_entry =
  entry_name :: string
  fair_share :: real
  actual_paid :: real
  balance :: real

record balance_sheet =
  total_shared_expenses :: real
  sheet_person_a :: person_entry
  sheet_person_b :: person_entry
  summary :: string

definition generate_monthly_balance :: "real contribution \<Rightarrow> error + balance_sheet" where
  "generate_monthly_balance c =
     (let (fair_share_a, fair_share_b) = calculate_fair_shares c in
      case get_person_shared_paid (name (person_a c)) c of
        Inl e \<Rightarrow> Inl e
      | Inr actual_paid_a \<Rightarrow>
          (case get_person_shared_paid (name (person_b c)) c of
             Inl e \<Rightarrow> Inl e
           | Inr actual_paid_b \<Rightarrow>
               (let balance_a = fair_share_a - actual_paid_a in
                Inr \<lparr>total_shared_expenses = get_total_shared_expenses c,
                     sheet_person_a =
                       \<lparr>entry_name = name (person_a c), fair_share = fair_share_a,
                        actual_paid = actual_paid_a, balance = balance_a\<rparr>,
                     sheet_person_b =
                       \<lparr>entry_name = name (person_b c), fair_share = fair_share_b,
                        actual_paid = actual_paid_b, balance = - balance_a\<rparr>,
                     summary =
                       generate_summary (name (person_a c)) (name (person_b c)) balance_a\<rparr>)))"

subsection \<open>Python floats and their addition\<close>

text \<open>
  A Python \<^verbatim>\<open>float\<close> is an IEEE 754 binary64 number. \<open>Finite m e\<close> is the number
  \<open>m * 2 ^ e\<close>; a float is such a number that can be written with \<open>\<bar>m\<bar> < 2 ^ 53\<close> and
  \<open>- 1074 \<le> e\<close> and is smaller in magnitude than \<open>2 ^ 1024\<close>. The same number has several
  such pairs, so floats are compared with \<open>float_eq\<close>, Python's \<^verbatim>\<open>==\<close>. The sign of zero
  is not kept.
\<close>

datatype float64 = Finite int int | PosInf | NegInf | NotANumber

text \<open>
  The number \<open>M * 2 ^ e\<close> rounded to 53 significant bits, to the nearest such number and to
  the even one of two nearest; what rounds to \<open>2 ^ 1024\<close> or beyond is infinite. Sums of
  floats are multiples of \<open>2 ^ - 1074\<close>, so the spacing of the smallest floats needs no case
  of its own.
\<close>

definition round53 :: "int \<Rightarrow> int \<Rightarrow> float64" where
  "round53 M e =
     (let a = \<bar>M\<bar>;
          shift = nat (bitlen a - 53);
          q = a div 2 ^ shift;
          r = a mod 2 ^ shift;
          q' = (if 2 * r < 2 ^ shift then q
                else if 2 ^ shift < 2 * r then q + 1
                else if even q then q else q + 1);
          E = e + int shift
      in if 1024 < bitlen q' + E then (if M < 0 then NegInf else PosInf)
         else Finite (sgn M * q') E)"

text \<open>\<^verbatim>\<open>x + y\<close> on floats: the exact sum, rounded.\<close>

fun float_add :: "float64 \<Rightarrow> float64 \<Rightarrow> float64" where
  "float_add (Finite m1 e1) (Finite m2 e2) =
     (let e = min e1 e2 in round53 (m1 * 2 ^ nat (e1 - e) + m2 * 2 ^ nat (e2 - e)) e)"
| "float_add NotANumber y = NotANumber"
| "float_add x NotANumber = NotANumber"
| "float_add PosInf NegInf = NotANumber"
| "float_add NegInf PosInf = NotANumber"
| "float_add PosInf y = PosInf"
| "float_add x PosInf = PosInf"
| "float_add NegInf y = NegInf"
| "float_add x NegInf = NegInf"


text \<open>
  The \<^verbatim>\<open>0\<close> of \<^verbatim>\<open>get(category, 0)\<close> and of \<^verbatim>\<open>sum\<close> is the integer 0, which Python
  converts to the float 0.0 before it adds.
\<close>

instantiation float64 :: "{zero, plus}"
begin

definition zero_float64 :: float64 where
  "zero_float64 = Finite 0 0"

definition plus_float64 :: "float64 \<Rightarrow> float64 \<Rightarrow> float64" where
  "plus_float64 x y = float_add x y"

instance ..

end

text \<open>
  The float literals \<^verbatim>\<open>0.1\<close> and \<^verbatim>\<open>1.1\<close>: the floats nearest to one tenth and to eleven
  tenths (\<^verbatim>\<open>(0.1).as_integer_ratio()\<close> is 3602879701896397 / 2 ^ 55).
\<close>

definition float_0_1 :: float64 where
  "float_0_1 = Finite 3602879701896397 (- 55)"

definition float_1_1 :: float64 where
  "float_1_1 = Finite 2476979795053773 (- 51)"

section \<open>Transaction categorisation\<close>

subsection \<open>Strings\<close>

text \<open>
  \<^verbatim>\<open>str.upper()\<close> is a builtin of Python that folds every cased code point of Unicode by
  a table which is not part of the repository. The functions below that call it take it
  as their first argument \<open>upper\<close>, a function from the UTF-8 bytes of a text to the UTF-8
  bytes of its upper-case form, and what is proved of them is proved for every such
  function.

  On ASCII text \<^verbatim>\<open>str.upper()\<close> turns the letters a to z into A to Z and leaves every
  other character; \<open>ascii_upper\<close> is that function. It stands for \<open>upper\<close> where a
  fixture with ASCII descriptions is evaluated; the bytes of the letters that are upper
  case already in the default keywords are left as they are by both.
\<close>

definition ascii_upper_char :: "char \<Rightarrow> char" where
  "ascii_upper_char c =
     (if (97::nat) \<le> of_char c \<and> of_char c \<le> (122::nat) then char_of (of_char c - (32::nat))
      else c)"

definition ascii_upper :: "string \<Rightarrow> string" where
  "ascii_upper s = map ascii_upper_char s"

text \<open>
  \<^verbatim>\<open>needle in haystack\<close> for two strings: the needle occurs as a contiguous run. In UTF-8
  a text occurs in another as a run of code points exactly when its bytes occur in the
  other's bytes.
\<close>

fun str_in :: "string \<Rightarrow> string \<Rightarrow> bool" where
  "str_in needle [] = (needle = [])"
| "str_in needle (c # cs) = (prefix needle (c # cs) \<or> str_in needle cs)"

subsection \<open>The category mapping\<close>

text \<open>
  A mapping is the dictionary of the source as its list of items in declaration order,
  the order \<^verbatim>\<open>mappings.items()\<close> goes through.
\<close>

type_synonym category_mappings = "(string \<times> string list) list"

definition DEFAULT_CATEGORY_MAPPINGS :: category_mappings where
  "DEFAULT_CATEGORY_MAPPINGS =
     [(''food'',
       [''LIDL'', ''K-MARKET'', ''K MARKET'', ''S-MARKET'', ''ALEPA'', ''PRISMA'',
        ''CITYMARKET'', ''SALE'', ''TOKMANNI'', ''RUOHONJUURI'']),
      (''transport'',
       [''HSL'', ''VR'', ''FINNAIR'', ''NORWEGIAN'', ''TAXI'', ''TAKSI'', ''UBER'',
        ''BOLT.EU'', ''VANTAAN TAKSI'', ''L'' @ [CHR 0xC3, CHR 0x84] @ ''HITAKSI'']),
      (''utilities'',
       [''HELEN'', ''VANTAAN ENERGIA'', ''CARUNA'', ''HSY'', ''DNA OYJ'', ''ELISA'',
        ''TELIA'', ''FORTUM'']),
      (''entertainment'',
       [''NETFLIX'', ''SPOTIFY'', ''HBO'', ''ELOKUVA'', ''FINNKINO'', ''ZYNGA'', ''STEAM'',
        ''SUPERCELL'', ''NINTENDO'', ''PLAYSTATION'']),
      (''health'',
       [''APTEEKKI'', ''YLIOPISTON APTEEKKI'', ''MEHIL'' @ [CHR 0xC3, CHR 0x84] @ ''INEN'',
        ''TERVEYSTALO'', ''AAVA'',
        ''HAMMASL'' @ [CHR 0xC3, CHR 0x84, CHR 0xC3, CHR 0x84] @ ''K'' @ [CHR 0xC3, CHR 0x84] @ ''RI'',
        ''FYSIOS'', ''HOITO'']),
      (''rent'',
       [''VUOKRA'', ''VUOKRANANTAJA'', ''SATO'', ''LUMO'', ''KOJAMO'', ''ASUNTO OY'',
        ''RENTAL'', ''MAANVUOKRA''])]"

text \<open>
  \<^verbatim>\<open>load_category_mappings\<close>: the file behind \<^verbatim>\<open>config_path\<close> is outside the model; what
  \<^verbatim>\<open>json.load\<close> reads from it, when the path is given and exists, is the argument.
\<close>

definition load_category_mappings :: "category_mappings option \<Rightarrow> category_mappings" where
  "load_category_mappings config =
     (case config of Some loaded \<Rightarrow> loaded | None \<Rightarrow> DEFAULT_CATEGORY_MAPPINGS)"

subsection \<open>Categorising one description\<close>

text \<open>The \<^verbatim>\<open>for\<close> loop of \<^verbatim>\<open>categorize_transaction\<close> over the items of the mapping.\<close>

fun categorize_loop :: "(string \<Rightarrow> string) \<Rightarrow> string \<Rightarrow> category_mappings \<Rightarrow> string" where
  "categorize_loop upper description [] = ''uncategorized''"
| "categorize_loop upper description ((category, keywords) # rest) =
     (if list_ex (\<lambda>keyword. str_in (upper keyword) description) keywords then category
      else categorize_loop upper description rest)"

text \<open>The parameter \<open>amount\<close> is not read, as in the source.\<close>

definition categorize_transaction ::
  "(string \<Rightarrow> string) \<Rightarrow> string \<Rightarrow> real \<Rightarrow> category_mappings \<Rightarrow> string" where
  "categorize_transaction upper description amount mappings =
     categorize_loop upper (upper description) mappings"

subsection \<open>Data frames\<close>

text \<open>
  A cell of a frame is a text, a boolean or missing (\<^verbatim>\<open>NaN\<close>). A frame is its index (the
  row labels) and its columns in insertion order, each as long as the index. Numeric
  columns such as \<^verbatim>\<open>amount\<close> are not read by the functions below and are left out.
\<close>

datatype cell = Str string | Bool bool | NaN

record dataframe =
  index :: "int list"
  columns :: "cell list dict"

text \<open>\<^verbatim>\<open>str(x)\<close> of a cell.\<close>

fun str :: "cell \<Rightarrow> string" where
  "str (Str s) = s"
| "str (Bool b) = (if b then ''True'' else ''False'')"
| "str NaN = ''nan''"

text \<open>\<^verbatim>\<open>df[col]\<close>: the column, or \<^verbatim>\<open>KeyError\<close>.\<close>

definition get_column :: "dataframe \<Rightarrow> string \<Rightarrow> error + cell list" where
  "get_column df col =
     (if dict_has (columns df) col then Inr (dict_get (columns df) col [])
      else Inl (KeyError col))"

text \<open>\<^verbatim>\<open>df[col] = values\<close>: replaces the column or adds it as the last one.\<close>

definition set_column :: "dataframe \<Rightarrow> string \<Rightarrow> cell list \<Rightarrow> dataframe" where
  "set_column df col values = df\<lparr>columns := dict_set (columns df) col values\<rparr>"

text \<open>\<^verbatim>\<open>df[col] = v\<close> for a scalar: the value in every row.\<close>

definition set_column_scalar :: "dataframe \<Rightarrow> string \<Rightarrow> cell \<Rightarrow> dataframe" where
  "set_column_scalar df col v = set_column df col (replicate (length (index df)) v)"

text \<open>
  \<^verbatim>\<open>df.loc[label, col] = v\<close>. A label that is not in the index adds a row of missing cells
  with that label, a column that does not exist is added with missing cells; then the cell
  of the column is set in every row that carries the label.
\<close>

definition append_row :: "dataframe \<Rightarrow> int \<Rightarrow> dataframe" where
  "append_row df label =
     \<lparr>index = index df @ [label], columns = map (\<lambda>(col, cells). (col, cells @ [NaN])) (columns df)\<rparr>"

definition loc_set :: "dataframe \<Rightarrow> int \<Rightarrow> string \<Rightarrow> cell \<Rightarrow> dataframe" where
  "loc_set df label col v =
     (let df1 = (if label \<in> set (index df) then df else append_row df label);
          df2 = (if dict_has (columns df1) col then df1
                 else set_column_scalar df1 col NaN)
      in set_column df2 col
           (map (\<lambda>(l, x). if l = label then v else x)
              (zip (index df2) (dict_get (columns df2) col []))))"

text \<open>
  The heap of frames: an address is a position of the list, a new object goes to the end.
  \<^verbatim>\<open>df.copy()\<close> makes a new object with the cells of the old one.
\<close>

type_synonym addr = nat

type_synonym heap = "dataframe list"

definition df_copy :: "addr \<Rightarrow> heap \<Rightarrow> addr \<times> heap" where
  "df_copy df h = (length h, h @ [h ! df])"

subsection \<open>Categorising and overriding\<close>

text \<open>
  \<^verbatim>\<open>categorize_transactions(df, mappings, description_column, amount_column)\<close>. The copy is
  made first; a missing description column raises \<^verbatim>\<open>KeyError\<close> after it.
\<close>

definition categorize_transactions ::
  "(string \<Rightarrow> string) \<Rightarrow> addr \<Rightarrow> category_mappings option \<Rightarrow> string \<Rightarrow> string \<Rightarrow> heap
     \<Rightarrow> (error + addr) \<times> heap" where
  "categorize_transactions upper df mappings description_column amount_column h =
     (let mappings = (case mappings of None \<Rightarrow> DEFAULT_CATEGORY_MAPPINGS | Some m \<Rightarrow> m);
          (result_df, h1) = df_copy df h
      in case get_column (h1 ! result_df) description_column of
           Inl e \<Rightarrow> (Inl e, h1)
         | Inr descriptions \<Rightarrow>
             (let h2 = h1[result_df := set_column (h1 ! result_df) ''category''
                          (map (\<lambda>x. Str (categorize_transaction upper (str x) 0 mappings))
                             descriptions)];
                  h3 = h2[result_df := set_column_scalar (h2 ! result_df) ''auto_categorized''
                          (Bool True)]
              in (Inr result_df, h3)))"

definition override_category :: "addr \<Rightarrow> int \<Rightarrow> string \<Rightarrow> heap \<Rightarrow> addr \<times> heap" where
  "override_category df idx new_category h =
     (let (df1, h1) = df_copy df h;
          h2 = h1[df1 := loc_set (h1 ! df1) idx ''category'' (Str new_category)];
          h3 = h2[df1 := loc_set (h2 ! df1) idx ''auto_categorized'' (Bool False)]
      in (df1, h3))"

text \<open>The cell of a column in the row at a position, if the frame has both.\<close>

definition cell_at :: "dataframe \<Rightarrow> string \<Rightarrow> nat \<Rightarrow> cell option" where
  "cell_at df col i =
     (if dict_has (columns df) col \<and> i < length (dict_get (columns df) col [])
      then Some (dict_get (columns df) col [] ! i) else None)"

text \<open>A frame, as pandas keeps it: every column has one cell per row.\<close>

definition wf_frame :: "dataframe \<Rightarrow> bool" where
  "wf_frame df = list_all (\<lambda>(col, cells). length cells = length (index df)) (columns df)"

subsection \<open>Reachable ledgers and the test fixture\<close>



text \<open>
  The fixture of \<^verbatim>\<open>test_calculations.py\<close>: Alice earns 3000, Bob 2000; Alice pays 1000 of
  shared rent, Bob 200 of shared utilities.
\<close>

definition fresh_ledger :: "real contribution" where
  "fresh_ledger = Contribution (Person ''Alice'' 3000) (Person ''Bob'' 2000) 0"

definition scenario_ledger :: "real contribution" where
  "scenario_ledger =
     snd (add_expense ''utilities'' 200 ''Bob'' True
       (snd (add_expense ''rent'' 1000 ''Alice'' True fresh_ledger)))"



text \<open>
  A ledger with float amounts: Alice pays 0.1 for food, Bob pays 0.1 for food, Alice pays
  1.1 for food, all shared.
\<close>

definition float_fresh_ledger :: "float64 contribution" where
  "float_fresh_ledger =
     Contribution (Person ''Alice'' (Finite 3000 0)) (Person ''Bob'' (Finite 2000 0)) 0"

definition float_ledger :: "float64 contribution" where
  "float_ledger =
     snd (add_expense ''food'' float_1_1 ''Alice'' True
       (snd (add_expense ''food'' float_0_1 ''Bob'' True
         (snd (add_expense ''food'' float_0_1 ''Alice'' True float_fresh_ledger)))))"

subsection \<open>The steps of a cell assignment, and the fixtures of the categorisation\<close>

text \<open>The three steps of \<open>loc_set\<close>, named: the label, the column, the cells of the label.\<close>

definition ensure_label :: "dataframe \<Rightarrow> int \<Rightarrow> dataframe" where
  "ensure_label df label = (if label \<in> set (index df) then df else append_row df label)"

definition ensure_column :: "dataframe \<Rightarrow> string \<Rightarrow> dataframe" where
  "ensure_column df col = (if dict_has (columns df) col then df else set_column_scalar df col NaN)"


text \<open>The two assignments of \<^verbatim>\<open>override_category\<close> on the copied frame.\<close>

definition override_frame :: "dataframe \<Rightarrow> int \<Rightarrow> string \<Rightarrow> dataframe" where
  "override_frame f idx new_category =
     loc_set (loc_set f idx ''category'' (Str new_category)) idx ''auto_categorized'' (Bool False)"

text \<open>The two assignments of \<^verbatim>\<open>categorize_transactions\<close> on the copied frame.\<close>

definition categorize_frame ::
  "(string \<Rightarrow> string) \<Rightarrow> dataframe \<Rightarrow> category_mappings \<Rightarrow> cell list \<Rightarrow> dataframe" where
  "categorize_frame upper f mappings descriptions =
     set_column_scalar
       (set_column f ''category''
          (map (\<lambda>x. Str (categorize_transaction upper (str x) 0 mappings)) descriptions))
       ''auto_categorized'' (Bool True)"

text \<open>
  Two expenses as the importer hands them over, then categorised with the default mapping,
  then the first one overridden by hand, then categorised again. The descriptions are
  ASCII text, so \<open>ascii_upper\<close> is what \<^verbatim>\<open>str.upper()\<close> does on them.
\<close>

definition raw_frame :: dataframe where
  "raw_frame =
     \<lparr>index = [0, 1], columns = [(''recipient_name'', [Str ''NETFLIX'', Str ''LIDL HELSINKI''])]\<rparr>"

definition categorized_heap :: heap where
  "categorized_heap =
     snd (categorize_transactions ascii_upper 0 None ''recipient_name'' ''amount'' [raw_frame])"

definition overridden_heap :: heap where
  "overridden_heap = snd (override_category 1 0 ''streaming'' categorized_heap)"

definition recategorized_heap :: heap where
  "recategorized_heap =
     snd (categorize_transactions ascii_upper 2 None ''recipient_name'' ''amount'' overridden_heap)"

section \<open>Properties of the ledger\<close>

subsection \<open>Dictionaries\<close>

lemma dict_get_set: "dict_get (dict_set d k v) k' dflt = (if k' = k then v else dict_get d k' dflt)"
  by (induction d) auto

lemma dict_keys_dict_set:
  "dict_keys (dict_set d k v) = (if k \<in> set (dict_keys d) then dict_keys d else dict_keys d @ [k])"
  by (induction d) (force simp: dict_keys_def)+








subsection \<open>The ledger invariant\<close>






lemma scenario_ledger_eq:
  "scenario_ledger =
     \<lparr>person_a = \<lparr>name = ''Alice'', monthly_income = 3000, personal_expenses = [],
                   shared_expenses_paid = [(''rent'', 1000)]\<rparr>,
      person_b = \<lparr>name = ''Bob'', monthly_income = 2000, personal_expenses = [],
                   shared_expenses_paid = [(''utilities'', 200)]\<rparr>,
      shared_expenses = [(''rent'', 1000), (''utilities'', 200)], date = 0\<rparr>"
  by (simp add: scenario_ledger_def fresh_ledger_def add_expense_def get_person_def
      put_person_def Contribution_def Person_def)

subsection \<open>C3: the shared pool and the two persons' payments\<close>





lemma float_ledger_eq:
  "float_ledger =
     \<lparr>person_a = \<lparr>name = ''Alice'', monthly_income = Finite 3000 0, personal_expenses = [],
                   shared_expenses_paid = [(''food'', Finite 5404319552844596 (- 52))]\<rparr>,
      person_b = \<lparr>name = ''Bob'', monthly_income = Finite 2000 0, personal_expenses = [],
                   shared_expenses_paid = [(''food'', Finite 3602879701896397 (- 55))]\<rparr>,
      shared_expenses = [(''food'', Finite 5854679515581645 (- 52))], date = 0\<rparr>"
  by code_simp




subsection \<open>C1: the two balances sum to zero\<close>

text \<open>
  Claim C1. For every ledger, \<^verbatim>\<open>generate_monthly_balance\<close> returns a report (it never
  raises, since it looks up the two registered names), in which person A's balance is the
  fair share of A minus what A paid, person B's balance is the negation of A's, and the
  two balances add up to exactly 0.
\<close>

theorem balances_are_opposite:
  "\<exists>r. generate_monthly_balance c = Inr r
     \<and> balance (sheet_person_a r) = fair_share (sheet_person_a r) - actual_paid (sheet_person_a r)
     \<and> fair_share (sheet_person_a r) = fst (calculate_fair_shares c)
     \<and> actual_paid (sheet_person_a r) = py_sum (dict_values (shared_expenses_paid (person_a c)))
     \<and> balance (sheet_person_b r) = - balance (sheet_person_a r)
     \<and> balance (sheet_person_a r) + balance (sheet_person_b r) = 0"
  by (simp add: generate_monthly_balance_def get_person_shared_paid_def Let_def split: prod.splits)

text \<open>On the fixture the balances are -280 and 280.\<close>

theorem balances_are_opposite_witness:
  "\<exists>r. generate_monthly_balance scenario_ledger = Inr r
     \<and> balance (sheet_person_a r) = - 280 \<and> balance (sheet_person_b r) = 280
     \<and> balance (sheet_person_a r) + balance (sheet_person_b r) = 0"
  using balances_are_opposite [of scenario_ledger]
  by (auto simp: scenario_ledger_eq calculate_fair_shares_def calculate_income_ratio_def
      get_total_shared_expenses_def dict_values_def py_sum_def)

subsection \<open>C4: an unknown name fails and changes nothing\<close>

text \<open>
  Claim C4. \<^verbatim>\<open>add_expense\<close> and \<^verbatim>\<open>get_person_shared_paid\<close> raise (the \<^verbatim>\<open>ValueError\<close>
  "Unknown person: ...") exactly when the name given is neither person A's nor person B's
  name; when \<^verbatim>\<open>add_expense\<close> raises, the ledger after the call is the ledger before it,
  both persons' dictionaries included.
\<close>

theorem unknown_person_error:
  "(isl (fst (add_expense category amount n is_shared c))
      \<longleftrightarrow> n \<noteq> name (person_a c) \<and> n \<noteq> name (person_b c))
   \<and> (isl (get_person_shared_paid n c)
      \<longleftrightarrow> n \<noteq> name (person_a c) \<and> n \<noteq> name (person_b c))
   \<and> (isl (fst (add_expense category amount n is_shared c))
      \<longrightarrow> add_expense category amount n is_shared c
            = (Inl (ValueError (''Unknown person: '' @ n)), c))
   \<and> (isl (get_person_shared_paid n c)
      \<longrightarrow> get_person_shared_paid n c = Inl (ValueError (''Unknown person: '' @ n)))"
  by (simp add: add_expense_def get_person_shared_paid_def Let_def)

text \<open>On the fixture, Charlie is refused and the ledger is kept; Bob is accepted.\<close>

theorem unknown_person_error_witness:
  "isl (fst (add_expense ''food'' 100 ''Charlie'' True scenario_ledger))
   \<and> add_expense ''food'' 100 ''Charlie'' True scenario_ledger
        = (Inl (ValueError ''Unknown person: Charlie''), scenario_ledger)
   \<and> get_person_shared_paid ''Charlie'' scenario_ledger
        = Inl (ValueError ''Unknown person: Charlie'')
   \<and> \<not> isl (fst (add_expense ''food'' 100 ''Bob'' True scenario_ledger))"
  using unknown_person_error [of "''food''" 100 "''Charlie''" True scenario_ledger]
    unknown_person_error [of "''food''" 100 "''Bob''" True scenario_ledger]
  by (auto simp: scenario_ledger_eq)

subsection \<open>C5: the income ratio\<close>

text \<open>
  Claim C5. \<^verbatim>\<open>calculate_income_ratio\<close> returns (0.5, 0.5) when the two incomes add up to
  zero, and otherwise A's income divided by the combined income together with one minus
  that ratio; the two components add up to 1. This holds for all incomes, the nonnegative
  ones of the claim among them. Incomes are exact reals here, so the sum is exactly 1.
\<close>

theorem income_ratio:
  "calculate_income_ratio a b =
     (if monthly_income a + monthly_income b = 0 then (0.5, 0.5)
      else (monthly_income a / (monthly_income a + monthly_income b),
            1 - monthly_income a / (monthly_income a + monthly_income b)))
   \<and> fst (calculate_income_ratio a b) + snd (calculate_income_ratio a b) = 1"
  by (simp add: calculate_income_ratio_def Let_def)

text \<open>Incomes 3000 and 2000 give (0.6, 0.4); two zero incomes give (0.5, 0.5).\<close>

theorem income_ratio_witness:
  "calculate_income_ratio (Person ''Alice'' 3000) (Person ''Bob'' 2000) = (0.6, 0.4)
   \<and> calculate_income_ratio (Person ''Zero'' 0) (Person ''Also Zero'' 0) = (0.5, 0.5)"
  using income_ratio [of "Person ''Alice'' 3000" "Person ''Bob'' 2000"]
    income_ratio [of "Person ''Zero'' 0" "Person ''Also Zero'' 0"]
  by (simp add: Person_def)

subsection \<open>C9: a personal expense stays out of the settlement\<close>

text \<open>The report reads the names, the incomes and the shared dictionaries only.\<close>

lemma generate_monthly_balance_frame:
  assumes "name (person_a c') = name (person_a c)" "name (person_b c') = name (person_b c)"
    "monthly_income (person_a c') = monthly_income (person_a c)"
    "monthly_income (person_b c') = monthly_income (person_b c)"
    "shared_expenses_paid (person_a c') = shared_expenses_paid (person_a c)"
    "shared_expenses_paid (person_b c') = shared_expenses_paid (person_b c)"
    "shared_expenses c' = shared_expenses c"
  shows "generate_monthly_balance c' = generate_monthly_balance c"
  using assms
  by (simp add: generate_monthly_balance_def calculate_fair_shares_def
      calculate_income_ratio_def get_total_shared_expenses_def get_person_shared_paid_def Let_def)

text \<open>
  Claim C9. A call of \<^verbatim>\<open>add_expense\<close> with \<^verbatim>\<open>is_shared=False\<close> and a registered payer
  succeeds, and the ledger after it is the ledger before it with one change: in the
  payer's \<^verbatim>\<open>personal_expenses\<close> the entry of the category is raised by the amount. The
  shared pool, both persons' \<^verbatim>\<open>shared_expenses_paid\<close>, the shared total, each person's
  paid total, the fair shares and the whole report are what they were before the call.
\<close>

theorem personal_expense_frame:
  assumes "paid_by = name (person_a c) \<or> paid_by = name (person_b c)"
  shows "\<exists>c'. add_expense category amount paid_by False c = (Inr (), c')
     \<and> c' = (if paid_by = name (person_a c)
             then c\<lparr>person_a := (person_a c)\<lparr>personal_expenses :=
                      dict_set (personal_expenses (person_a c)) category
                        (dict_get (personal_expenses (person_a c)) category 0 + amount)\<rparr>\<rparr>
             else c\<lparr>person_b := (person_b c)\<lparr>personal_expenses :=
                      dict_set (personal_expenses (person_b c)) category
                        (dict_get (personal_expenses (person_b c)) category 0 + amount)\<rparr>\<rparr>)
     \<and> shared_expenses c' = shared_expenses c
     \<and> shared_expenses_paid (person_a c') = shared_expenses_paid (person_a c)
     \<and> shared_expenses_paid (person_b c') = shared_expenses_paid (person_b c)
     \<and> get_total_shared_expenses c' = get_total_shared_expenses c
     \<and> get_person_shared_paid n c' = get_person_shared_paid n c
     \<and> calculate_fair_shares c' = calculate_fair_shares c
     \<and> generate_monthly_balance c' = generate_monthly_balance c"
proof (cases "paid_by = name (person_a c)")
  case True
  let ?c' = "c\<lparr>person_a := (person_a c)\<lparr>personal_expenses :=
                      dict_set (personal_expenses (person_a c)) category
                        (dict_get (personal_expenses (person_a c)) category 0 + amount)\<rparr>\<rparr>"
  have run: "add_expense category amount paid_by False c = (Inr (), ?c')"
    using True by (simp add: add_expense_def get_person_def put_person_def Let_def)
  have "generate_monthly_balance ?c' = generate_monthly_balance c"
    by (rule generate_monthly_balance_frame) simp_all
  with run True show ?thesis
    by (simp add: get_total_shared_expenses_def get_person_shared_paid_def
        calculate_fair_shares_def calculate_income_ratio_def Let_def)
next
  case False
  with assms have b: "paid_by = name (person_b c)" by simp
  let ?c' = "c\<lparr>person_b := (person_b c)\<lparr>personal_expenses :=
                      dict_set (personal_expenses (person_b c)) category
                        (dict_get (personal_expenses (person_b c)) category 0 + amount)\<rparr>\<rparr>"
  have run: "add_expense category amount paid_by False c = (Inr (), ?c')"
    using False b by (simp add: add_expense_def get_person_def put_person_def Let_def)
  have "generate_monthly_balance ?c' = generate_monthly_balance c"
    by (rule generate_monthly_balance_frame) simp_all
  with run False show ?thesis
    by (simp add: get_total_shared_expenses_def get_person_shared_paid_def
        calculate_fair_shares_def calculate_income_ratio_def Let_def)
qed

text \<open>Alice's hobby of 50 on the fixture: only her personal dictionary changes.\<close>

theorem personal_expense_frame_witness:
  "add_expense ''hobby'' 50 ''Alice'' False scenario_ledger
     = (Inr (), scenario_ledger\<lparr>person_a :=
          (person_a scenario_ledger)\<lparr>personal_expenses := [(''hobby'', 50)]\<rparr>\<rparr>)
   \<and> generate_monthly_balance (snd (add_expense ''hobby'' 50 ''Alice'' False scenario_ledger))
     = generate_monthly_balance scenario_ledger"
  using personal_expense_frame [of "''Alice''" scenario_ledger "''hobby''" 50]
  by (auto simp: scenario_ledger_eq)



subsection \<open>C8: the settlement scenario\<close>

text \<open>
  Claim C8. On the fixture (incomes 3000 and 2000, Alice pays 1000 of shared rent, Bob 200
  of shared utilities) the report has total 1200, fair shares 720 and 480, payments 1000
  and 200, balances -280 and 280. Its summary is \<^verbatim>\<open>Bob owes Alice\<close>, a space, the seven
  bytes of the source's currency literal and \<^verbatim>\<open>280.00\<close>; that is not the summary with the
  euro sign.
\<close>

theorem settlement_scenario:
  "generate_monthly_balance scenario_ledger =
     Inr \<lparr>total_shared_expenses = 1200,
          sheet_person_a = \<lparr>entry_name = ''Alice'', fair_share = 720, actual_paid = 1000,
                             balance = - 280\<rparr>,
          sheet_person_b = \<lparr>entry_name = ''Bob'', fair_share = 480, actual_paid = 200,
                             balance = 280\<rparr>,
          summary = ''Bob owes Alice '' @ currency_mark @ ''280.00''\<rparr>
   \<and> ''Bob owes Alice '' @ currency_mark @ ''280.00''
       \<noteq> ''Bob owes Alice '' @ euro_sign @ ''280.00''"
proof -
  have d: "digits 280 = ''280''" "digits 0 = ''0''" by code_simp+
  have f: "format_2f 280 = ''280.00''"
    by (simp add: format_2f_def round_half_even_def d del: digits.simps)
  show ?thesis
    by (simp add: scenario_ledger_eq generate_monthly_balance_def calculate_fair_shares_def
        calculate_income_ratio_def get_total_shared_expenses_def get_person_shared_paid_def
        dict_values_def py_sum_def generate_summary_def f currency_mark_def euro_sign_def)
qed

section \<open>Properties of the categorisation of one description\<close>

subsection \<open>The loop returns the first category that matches\<close>

lemma str_in_sublist: "str_in xs ys = sublist xs ys"
  by (induction ys) (auto simp: sublist_Cons_right)

lemma categorize_loop_first:
  assumes "i < length mappings"
    and "list_ex (\<lambda>keyword. str_in (upper keyword) d) (snd (mappings ! i))"
    and "\<forall>j<i. \<not> list_ex (\<lambda>keyword. str_in (upper keyword) d) (snd (mappings ! j))"
  shows "categorize_loop upper d mappings = fst (mappings ! i)"
  using assms
proof (induction upper d mappings arbitrary: i rule: categorize_loop.induct)
  case (1 upper description)
  then show ?case by simp
next
  case (2 upper description category kws rest)
  show ?case
  proof (cases i)
    case 0
    with 2 show ?thesis by simp
  next
    case (Suc k)
    with "2.prems" have nomatch: "\<not> list_ex (\<lambda>keyword. str_in (upper keyword) description) kws"
      by fastforce
    have "categorize_loop upper description rest = fst (rest ! k)"
    proof (rule "2.IH" [OF nomatch])
      show "k < length rest" using "2.prems" Suc by simp
      show "list_ex (\<lambda>keyword. str_in (upper keyword) description) (snd (rest ! k))"
        using "2.prems" Suc by simp
      show "\<forall>j<k. \<not> list_ex (\<lambda>keyword. str_in (upper keyword) description) (snd (rest ! j))"
        using "2.prems"(3) Suc by auto
    qed
    with nomatch Suc show ?thesis by simp
  qed
qed

lemma categorize_loop_none:
  assumes "\<forall>i<length mappings. \<not> list_ex (\<lambda>keyword. str_in (upper keyword) d) (snd (mappings ! i))"
  shows "categorize_loop upper d mappings = ''uncategorized''"
  using assms
proof (induction upper d mappings rule: categorize_loop.induct)
  case (1 upper description)
  then show ?case by simp
next
  case (2 upper description category kws rest)
  from "2.prems" have nomatch: "\<not> list_ex (\<lambda>keyword. str_in (upper keyword) description) kws"
    by fastforce
  from "2.prems" have "\<forall>i<length rest. \<not> list_ex (\<lambda>keyword. str_in (upper keyword) description) (snd (rest ! i))"
    by fastforce
  with "2.IH" [OF nomatch] nomatch show ?case by simp
qed


lemma any_keyword_iff:
  "list_ex (\<lambda>keyword. str_in (upper keyword) d) kws
     \<longleftrightarrow> (\<exists>keyword \<in> set kws. sublist (upper keyword) d)"
  by (simp add: list_ex_iff str_in_sublist)

lemma categorize_transaction_first:
  assumes i: "i < length mappings"
    and hit: "\<exists>keyword \<in> set (snd (mappings ! i)). sublist (upper keyword) (upper description)"
    and miss: "\<forall>(category, kws) \<in> set (take i mappings).
            \<forall>keyword \<in> set kws. \<not> sublist (upper keyword) (upper description)"
  shows "categorize_transaction upper description amount mappings = fst (mappings ! i)"
proof -
  have "\<not> list_ex (\<lambda>keyword. str_in (upper keyword) (upper description)) (snd (mappings ! j))"
    if "j < i" for j
  proof -
    have "take i mappings ! j \<in> set (take i mappings)"
      using that i by (intro nth_mem) simp
    then have "mappings ! j \<in> set (take i mappings)"
      using that by simp
    with miss show ?thesis
      by (cases "mappings ! j") (auto simp: any_keyword_iff)
  qed
  then have "\<forall>j<i. \<not> list_ex (\<lambda>keyword. str_in (upper keyword) (upper description))
                       (snd (mappings ! j))"
    by simp
  moreover have "list_ex (\<lambda>keyword. str_in (upper keyword) (upper description))
                   (snd (mappings ! i))"
    using hit by (simp add: any_keyword_iff)
  ultimately show ?thesis
    unfolding categorize_transaction_def using i by (intro categorize_loop_first)
qed

lemma categorize_transaction_none:
  assumes miss: "\<forall>(category, kws) \<in> set mappings.
            \<forall>keyword \<in> set kws. \<not> sublist (upper keyword) (upper description)"
  shows "categorize_transaction upper description amount mappings = ''uncategorized''"
proof -
  have "\<not> list_ex (\<lambda>keyword. str_in (upper keyword) (upper description)) (snd (mappings ! j))"
    if "j < length mappings" for j
  proof -
    from that have "mappings ! j \<in> set mappings" by simp
    with miss show ?thesis
      by (cases "mappings ! j") (auto simp: any_keyword_iff)
  qed
  then have "\<forall>j<length mappings.
      \<not> list_ex (\<lambda>keyword. str_in (upper keyword) (upper description)) (snd (mappings ! j))"
    by simp
  then show ?thesis
    unfolding categorize_transaction_def by (rule categorize_loop_none)
qed

subsection \<open>C2: first match wins, no match is uncategorized\<close>

text \<open>
  Claim C2. A keyword matches a description when the keyword in upper case is a
  contiguous part (\<open>sublist\<close>) of the description in upper case; this is the sense in
  which a description contains a keyword. For every uppercasing function, every
  description and every mapping: if the category at position \<open>i\<close> of the mapping has a
  keyword that matches and no category before it (\<open>take i mappings\<close>) has one,
  \<^verbatim>\<open>categorize_transaction\<close> returns the category at position \<open>i\<close>; if no category has a
  keyword that matches, it returns \<^verbatim>\<open>uncategorized\<close>. The two cases are all there are,
  since a mapping with a match has a first one. The amount plays no part.
\<close>

theorem categorize_transaction_first_match:
  "(i < length mappings
      \<and> (\<exists>keyword \<in> set (snd (mappings ! i)). sublist (upper keyword) (upper description))
      \<and> (\<forall>(category, kws) \<in> set (take i mappings).
            \<forall>keyword \<in> set kws. \<not> sublist (upper keyword) (upper description))
     \<longrightarrow> categorize_transaction upper description amount mappings = fst (mappings ! i))
   \<and> ((\<forall>(category, kws) \<in> set mappings.
            \<forall>keyword \<in> set kws. \<not> sublist (upper keyword) (upper description))
     \<longrightarrow> categorize_transaction upper description amount mappings = ''uncategorized'')"
proof (intro conjI impI)
  assume "i < length mappings
      \<and> (\<exists>keyword \<in> set (snd (mappings ! i)). sublist (upper keyword) (upper description))
      \<and> (\<forall>(category, kws) \<in> set (take i mappings).
            \<forall>keyword \<in> set kws. \<not> sublist (upper keyword) (upper description))"
  then show "categorize_transaction upper description amount mappings = fst (mappings ! i)"
    by (intro categorize_transaction_first) (elim conjE, assumption)+
next
  assume "\<forall>(category, kws) \<in> set mappings.
            \<forall>keyword \<in> set kws. \<not> sublist (upper keyword) (upper description)"
  then show "categorize_transaction upper description amount mappings = ''uncategorized''"
    by (rule categorize_transaction_none)
qed

text \<open>
  Scenario 1 of the specification, on the default mapping; the descriptions are ASCII text.
\<close>

lemma scenario_classification:
  "categorize_transaction ascii_upper ''LIDL HELSINKI'' 0 DEFAULT_CATEGORY_MAPPINGS = ''food''"
  "categorize_transaction ascii_upper ''HSL'' 0 DEFAULT_CATEGORY_MAPPINGS = ''transport''"
  "categorize_transaction ascii_upper ''NETFLIX'' 0 DEFAULT_CATEGORY_MAPPINGS = ''entertainment''"
  "categorize_transaction ascii_upper ''DNA OYJ'' 0 DEFAULT_CATEGORY_MAPPINGS = ''utilities''"
  "categorize_transaction ascii_upper ''VUOKRANANTAJA OY'' 0 DEFAULT_CATEGORY_MAPPINGS = ''rent''"
  by code_simp+

text \<open>
  On the default mapping, with ASCII descriptions: one in mixed case with the keyword \<^verbatim>\<open>HSL\<close> of the
  second category and no keyword of the first is \<^verbatim>\<open>transport\<close>; one with no keyword at all
  is \<^verbatim>\<open>uncategorized\<close>.
\<close>

lemma hsl_position: "(1::nat) < length DEFAULT_CATEGORY_MAPPINGS"
  by (simp add: DEFAULT_CATEGORY_MAPPINGS_def)

lemma hsl_category: "fst (DEFAULT_CATEGORY_MAPPINGS ! 1) = ''transport''"
  by (simp add: DEFAULT_CATEGORY_MAPPINGS_def)

lemma hsl_matches: "\<exists>keyword \<in> set (snd (DEFAULT_CATEGORY_MAPPINGS ! 1)).
               sublist (ascii_upper keyword) (ascii_upper ''Hsl city bike'')"
  by code_simp


lemma hsl_no_earlier_match: "\<forall>(category, kws) \<in> set (take 1 DEFAULT_CATEGORY_MAPPINGS).
            \<forall>keyword \<in> set kws. \<not> sublist (ascii_upper keyword) (ascii_upper ''Hsl city bike'')"
  by code_simp

lemma flea_market_no_match: "\<forall>(category, kws) \<in> set DEFAULT_CATEGORY_MAPPINGS.
            \<forall>keyword \<in> set kws. \<not> sublist (ascii_upper keyword) (ascii_upper ''flea market'')"
  by code_simp


theorem categorize_transaction_first_match_witness:
  "categorize_transaction ascii_upper ''Hsl city bike'' 12 DEFAULT_CATEGORY_MAPPINGS = ''transport''
   \<and> categorize_transaction ascii_upper ''flea market'' 5 DEFAULT_CATEGORY_MAPPINGS = ''uncategorized''"
proof -
  note hsl = categorize_transaction_first_match
    [where i = 1 and mappings = DEFAULT_CATEGORY_MAPPINGS and upper = ascii_upper
      and description = "''Hsl city bike''" and amount = 12]
  note flea = categorize_transaction_first_match
    [where i = 1 and mappings = DEFAULT_CATEGORY_MAPPINGS and upper = ascii_upper
      and description = "''flea market''" and amount = 5]
  have "categorize_transaction ascii_upper ''Hsl city bike'' 12 DEFAULT_CATEGORY_MAPPINGS
          = fst (DEFAULT_CATEGORY_MAPPINGS ! 1)"
    by (rule mp [OF conjunct1 [OF hsl]]) (intro conjI hsl_position hsl_matches hsl_no_earlier_match)
  then have a: "categorize_transaction ascii_upper ''Hsl city bike'' 12 DEFAULT_CATEGORY_MAPPINGS
          = ''transport''"
    by (simp only: hsl_category)
  have b: "categorize_transaction ascii_upper ''flea market'' 5 DEFAULT_CATEGORY_MAPPINGS = ''uncategorized''"
    by (rule mp [OF conjunct2 [OF flea]]) (rule flea_market_no_match)
  from a b show ?thesis by (rule conjI)
qed

section \<open>Properties of the categorisation of frames\<close>

subsection \<open>Assigning a cell\<close>

lemma dict_has_set: "dict_has (dict_set d k v) k' \<longleftrightarrow> k' = k \<or> dict_has d k'"
  by (auto simp: dict_has_def dict_keys_dict_set)








lemma index_ensure_column [simp]: "index (ensure_column df col) = index df"
  by (simp add: ensure_column_def set_column_scalar_def set_column_def)

lemma has_ensure_column [simp]: "dict_has (columns (ensure_column df col)) col"
  by (simp add: ensure_column_def set_column_scalar_def set_column_def dict_has_set)

lemma label_ensure_label [simp]: "label \<in> set (index (ensure_label df label))"
  by (simp add: ensure_label_def append_row_def)













subsection \<open>Well-formed frames\<close>

lemma wf_frame_iff:
  "wf_frame f \<longleftrightarrow> (\<forall>(col, cells) \<in> set (columns f). length cells = length (index f))"
  by (simp add: wf_frame_def list_all_iff)

lemma dict_get_mem: "k \<in> fst ` set d \<Longrightarrow> (k, dict_get d k dflt) \<in> set d"
  by (induction d) force+

lemma wf_column_length:
  assumes "wf_frame f" "dict_has (columns f) col"
  shows "length (dict_get (columns f) col []) = length (index f)"
proof -
  from assms(2) have "(col, dict_get (columns f) col []) \<in> set (columns f)"
    by (simp add: dict_has_def dict_keys_def dict_get_mem)
  with assms(1) show ?thesis by (auto simp: wf_frame_iff)
qed










subsection \<open>The two functions on the heap\<close>

lemma override_category_eq:
  "override_category df idx c h = (length h, h @ [override_frame (h ! df) idx c])"
  by (simp add: override_category_def df_copy_def override_frame_def Let_def)

lemma categorize_transactions_eq:
  "categorize_transactions upper df mappings description_column amount_column h =
     (case get_column (h ! df) description_column of
        Inl e \<Rightarrow> (Inl e, h @ [h ! df])
      | Inr descriptions \<Rightarrow>
          (Inr (length h),
           h @ [categorize_frame upper (h ! df)
                  (case mappings of None \<Rightarrow> DEFAULT_CATEGORY_MAPPINGS | Some m \<Rightarrow> m)
                  descriptions]))"
  by (simp add: categorize_transactions_def df_copy_def categorize_frame_def Let_def
      split: sum.splits)

lemma categorize_frame_cells:
  assumes "i < length (index f)" "length descriptions = length (index f)"
  shows "cell_at (categorize_frame upper f m descriptions) ''category'' i
           = Some (Str (categorize_transaction upper (str (descriptions ! i)) 0 m))"
    and "cell_at (categorize_frame upper f m descriptions) ''auto_categorized'' i = Some (Bool True)"
  using assms
  by (simp_all add: categorize_frame_def cell_at_def set_column_scalar_def set_column_def
      dict_has_set dict_get_set)

lemma index_categorize_frame: "index (categorize_frame upper f m descriptions) = index f"
  by (simp add: categorize_frame_def set_column_scalar_def set_column_def)

subsection \<open>C7: an override sets the category and clears the flag, once and for all\<close>


subsection \<open>C10: both functions work on a copy\<close>

text \<open>
  Claim C10. \<^verbatim>\<open>categorize_transactions\<close> and \<^verbatim>\<open>override_category\<close> leave the frame they are
  given, and every other object of the heap, as it was: the heap after the call is the
  heap before it with one new object at the end. The frame returned is that new object, at
  an address the old heap did not have, and it holds the updated cells.
\<close>

theorem operate_on_a_copy:
  assumes "df < length h"
  shows "(\<exists>res h'.
            categorize_transactions upper df mappings description_column amount_column h
              = (res, h')
            \<and> h' ! df = h ! df \<and> take (length h) h' = h \<and> length h' = Suc (length h)
            \<and> (case res of Inl e \<Rightarrow> True
                | Inr r \<Rightarrow> r = length h \<and>
                    (\<exists>descriptions. get_column (h ! df) description_column = Inr descriptions \<and>
                       h' ! r = categorize_frame upper (h ! df)
                         (case mappings of None \<Rightarrow> DEFAULT_CATEGORY_MAPPINGS | Some m \<Rightarrow> m)
                         descriptions)))
       \<and> (\<exists>r h'. override_category df idx new_category h = (r, h')
            \<and> h' ! df = h ! df \<and> take (length h) h' = h \<and> length h' = Suc (length h)
            \<and> r = length h \<and> h' ! r = override_frame (h ! df) idx new_category)"
  using assms
  by (auto simp: override_category_eq categorize_transactions_eq nth_append split: sum.splits)

subsection \<open>C6: a classification pass classifies every row again\<close>

text \<open>
  Claim C6, as amended. For every well-formed frame that has the description column, a
  classification pass returns a frame with the same index in which every row, overridden
  or not, has the category that \<^verbatim>\<open>categorize_transaction\<close> computes from its description
  and \<^verbatim>\<open>auto_categorized = True\<close>.
\<close>

theorem categorize_transactions_reclassifies_all:
  assumes "df < length h" "wf_frame (h ! df)"
    and "get_column (h ! df) description_column = Inr descriptions"
  shows "\<exists>r h'. categorize_transactions upper df mappings description_column amount_column h
                  = (Inr r, h')
      \<and> index (h' ! r) = index (h ! df)
      \<and> (\<forall>i < length (index (h ! df)).
           cell_at (h' ! r) ''category'' i
             = Some (Str (categorize_transaction upper (str (descriptions ! i)) 0
                 (case mappings of None \<Rightarrow> DEFAULT_CATEGORY_MAPPINGS | Some m \<Rightarrow> m)))
         \<and> cell_at (h' ! r) ''auto_categorized'' i = Some (Bool True))"
proof -
  from assms(3) have has: "dict_has (columns (h ! df)) description_column"
    and d: "descriptions = dict_get (columns (h ! df)) description_column []"
    by (auto simp: get_column_def split: if_splits)
  have len: "length descriptions = length (index (h ! df))"
    unfolding d using assms(2) has by (rule wf_column_length)
  show ?thesis
    using assms(3) len
    by (simp add: categorize_transactions_eq categorize_frame_cells index_categorize_frame)
qed


subsection \<open>The fixtures, evaluated\<close>

lemma categorized_heap_eq:
  "categorized_heap =
     [raw_frame,
      \<lparr>index = [0, 1],
       columns = [(''recipient_name'', [Str ''NETFLIX'', Str ''LIDL HELSINKI'']),
                  (''category'', [Str ''entertainment'', Str ''food'']),
                  (''auto_categorized'', [Bool True, Bool True])]\<rparr>]"
  by code_simp

lemma overridden_heap_eq:
  "overridden_heap =
     categorized_heap @
     [\<lparr>index = [0, 1],
       columns = [(''recipient_name'', [Str ''NETFLIX'', Str ''LIDL HELSINKI'']),
                  (''category'', [Str ''streaming'', Str ''food'']),
                  (''auto_categorized'', [Bool False, Bool True])]\<rparr>]"
  by code_simp

lemma recategorized_heap_eq:
  "recategorized_heap =
     overridden_heap @
     [\<lparr>index = [0, 1],
       columns = [(''recipient_name'', [Str ''NETFLIX'', Str ''LIDL HELSINKI'']),
                  (''category'', [Str ''entertainment'', Str ''food'']),
                  (''auto_categorized'', [Bool True, Bool True])]\<rparr>]"
  by code_simp


lemma fixture_lengths:
  "length categorized_heap = 2" "length overridden_heap = 3" "length recategorized_heap = 4"
  by (simp_all add: recategorized_heap_eq overridden_heap_eq categorized_heap_eq)

lemma fixture_frames:
  "categorized_heap ! 1 =
      \<lparr>index = [0, 1],
       columns = [(''recipient_name'', [Str ''NETFLIX'', Str ''LIDL HELSINKI'']),
                  (''category'', [Str ''entertainment'', Str ''food'']),
                  (''auto_categorized'', [Bool True, Bool True])]\<rparr>"
  "overridden_heap ! 2 =
      \<lparr>index = [0, 1],
       columns = [(''recipient_name'', [Str ''NETFLIX'', Str ''LIDL HELSINKI'']),
                  (''category'', [Str ''streaming'', Str ''food'']),
                  (''auto_categorized'', [Bool False, Bool True])]\<rparr>"
  "recategorized_heap ! 3 =
      \<lparr>index = [0, 1],
       columns = [(''recipient_name'', [Str ''NETFLIX'', Str ''LIDL HELSINKI'']),
                  (''category'', [Str ''entertainment'', Str ''food'']),
                  (''auto_categorized'', [Bool True, Bool True])]\<rparr>"
  by (simp_all add: recategorized_heap_eq overridden_heap_eq categorized_heap_eq nth_append)

text \<open>
  On the categorised fixture, overriding row 0 to \<^verbatim>\<open>streaming\<close> replaces the category
  \<^verbatim>\<open>entertainment\<close> and the flag \<^verbatim>\<open>True\<close>; overriding again changes nothing.
\<close>

lemma fixture_frame_Suc:
  "categorized_heap ! Suc 0 =
      \<lparr>index = [0, 1],
       columns = [(''recipient_name'', [Str ''NETFLIX'', Str ''LIDL HELSINKI'']),
                  (''category'', [Str ''entertainment'', Str ''food'']),
                  (''auto_categorized'', [Bool True, Bool True])]\<rparr>"
  using fixture_frames(1) by simp


text \<open>The raw frame and the categorised frame are still in the heap, unchanged.\<close>

theorem operate_on_a_copy_witness:
  "categorize_transactions ascii_upper 0 None ''recipient_name'' ''amount'' [raw_frame]
     = (Inr 1, categorized_heap)
   \<and> categorized_heap ! 0 = raw_frame
   \<and> override_category 1 0 ''streaming'' categorized_heap = (2, overridden_heap)
   \<and> overridden_heap ! 1 = categorized_heap ! 1
   \<and> overridden_heap ! 2 \<noteq> categorized_heap ! 1"
proof -
  have a: "(0::nat) < length [raw_frame]" by simp
  have b: "(1::nat) < length categorized_heap" by (simp add: fixture_lengths)
  have c: "get_column raw_frame ''recipient_name'' = Inr [Str ''NETFLIX'', Str ''LIDL HELSINKI'']"
    by (simp add: get_column_def raw_frame_def dict_has_def dict_keys_def)
  have run1:
    "categorize_transactions ascii_upper 0 None ''recipient_name'' ''amount'' [raw_frame]
     = (Inr 1, categorized_heap)"
    by (simp add: categorized_heap_def categorize_transactions_eq c)
  have run2: "override_category 1 0 ''streaming'' categorized_heap = (2, overridden_heap)"
    by (simp add: overridden_heap_def override_category_eq fixture_lengths)
  from operate_on_a_copy [OF a, where upper = ascii_upper and mappings = None
      and description_column = "''recipient_name''" and amount_column = "''amount''"
      and idx = 0 and new_category = "''streaming''"]
  have kept1: "categorized_heap ! 0 = raw_frame"
    unfolding run1 by simp
  from operate_on_a_copy [OF b, where upper = ascii_upper and mappings = None
      and description_column = "''recipient_name''" and amount_column = "''amount''"
      and idx = 0 and new_category = "''streaming''"]
  have kept2: "overridden_heap ! 1 = categorized_heap ! 1"
    unfolding run2 by simp
  have changed: "overridden_heap ! 2 \<noteq> categorized_heap ! 1"
    unfolding fixture_frames by simp
  from run1 kept1 run2 kept2 changed show ?thesis by simp
qed

text \<open>The overridden fixture, categorised again: row 0 is \<^verbatim>\<open>entertainment\<close> and flagged.\<close>

theorem categorize_transactions_reclassifies_all_witness:
  "categorize_transactions ascii_upper 2 None ''recipient_name'' ''amount'' overridden_heap
     = (Inr 3, recategorized_heap)
   \<and> cell_at (recategorized_heap ! 3) ''category'' 0 = Some (Str ''entertainment'')
   \<and> cell_at (recategorized_heap ! 3) ''auto_categorized'' 0 = Some (Bool True)"
proof -
  have 1: "(2::nat) < length overridden_heap" by (simp add: fixture_lengths)
  have 2: "wf_frame (overridden_heap ! 2)"
    unfolding fixture_frames(2) by (simp add: wf_frame_def)
  have 3: "get_column (overridden_heap ! 2) ''recipient_name''
             = Inr [Str ''NETFLIX'', Str ''LIDL HELSINKI'']"
    by (simp add: fixture_frames get_column_def dict_has_def dict_keys_def)
  have run:
    "categorize_transactions ascii_upper 2 None ''recipient_name'' ''amount'' overridden_heap
     = (Inr 3, recategorized_heap)"
    by (simp add: recategorized_heap_def categorize_transactions_eq 3 fixture_lengths)
  have cat: "categorize_transaction ascii_upper ''NETFLIX'' 0 DEFAULT_CATEGORY_MAPPINGS = ''entertainment''"
    by code_simp
  from categorize_transactions_reclassifies_all [OF 1 2 3, where upper = ascii_upper
      and mappings = None and amount_column = "''amount''"] run cat
  show ?thesis by (auto simp: fixture_frames)
qed

text \<open>
  Claim C6, as stated, fails: row 0 of the overridden fixture has the category
  \<^verbatim>\<open>streaming\<close> and \<^verbatim>\<open>auto_categorized = False\<close>; after a classification pass over that
  frame the row has the category \<^verbatim>\<open>entertainment\<close> and \<^verbatim>\<open>auto_categorized = True\<close>.
\<close>

theorem classification_revisits_overridden_record:
  "cell_at (overridden_heap ! 2) ''category'' 0 = Some (Str ''streaming'')
   \<and> cell_at (overridden_heap ! 2) ''auto_categorized'' 0 = Some (Bool False)
   \<and> categorize_transactions ascii_upper 2 None ''recipient_name'' ''amount'' overridden_heap
       = (Inr 3, recategorized_heap)
   \<and> cell_at (recategorized_heap ! 3) ''category'' 0 = Some (Str ''entertainment'')
   \<and> cell_at (recategorized_heap ! 3) ''auto_categorized'' 0 = Some (Bool True)
   \<and> cell_at (recategorized_heap ! 3) ''category'' 0
       \<noteq> cell_at (overridden_heap ! 2) ''category'' 0
   \<and> cell_at (recategorized_heap ! 3) ''auto_categorized'' 0
       \<noteq> cell_at (overridden_heap ! 2) ''auto_categorized'' 0"
proof -
  have 3: "get_column (overridden_heap ! 2) ''recipient_name''
             = Inr [Str ''NETFLIX'', Str ''LIDL HELSINKI'']"
    by (simp add: fixture_frames get_column_def dict_has_def dict_keys_def)
  have run:
    "categorize_transactions ascii_upper 2 None ''recipient_name'' ''amount'' overridden_heap
     = (Inr 3, recategorized_heap)"
    by (simp add: recategorized_heap_def categorize_transactions_eq 3 fixture_lengths)
  show ?thesis
    by (simp add: run fixture_frames cell_at_def dict_has_def dict_keys_def)
qed

end
